theory Spec2Isabelle
  imports Complex_Main
begin

section \<open>The game record model of \<open>client/src/app/game/game.models.ts\<close>\<close>

text \<open>
  The file declares the string enumeration \<open>GameStatus\<close> and the class \<open>Game\<close>, whose
  constructor copies six properties of an untyped payload \<open>info\<close>, builds two \<open>Date\<close>
  objects from two more, and whose method \<open>isPlayable\<close> compares the stored status with
  \<open>GameStatus.NEW\<close> by \<open>===\<close>.

  The class has no algorithm of its own: what it does is decided by the property read,
  by the \<open>Date\<close> constructor and by strict equality. These three are embedded below after
  ECMAScript (ECMA-262), over the values a decoded wire payload is made of: \<open>undefined\<close>,
  \<open>null\<close>, booleans, numbers, strings, arrays and plain objects with data properties,
  as \<open>JSON.parse\<close> builds them (the prototypes are \<open>Array.prototype\<close> and
  \<open>Object.prototype\<close>, unmodified). Functions, symbols, big integers, accessor
  properties and proxies are not payload data and are not modelled.
\<close>

subsection \<open>Values\<close>

text \<open>
  A Number is NaN, an infinity or a finite value. Every finite double is a rational, so
  \<open>Fin\<close> ranges over a superset of the finite doubles; the sign of zero is not kept
  (no operation used here tells \<open>-0\<close> from \<open>+0\<close>).
\<close>

datatype jsnum = NaN | PosInf | NegInf | Fin rat

datatype prim = Undefined | Null | Bool bool | Num jsnum | Str string

text \<open>
  Arrays and plain objects are never written by this class, so they are carried as
  values: an array as the list of its elements, an object as the list of its own data
  properties (the first binding of a key is the property).
\<close>

datatype jsval = Prim prim | Arr "jsval list" | Obj "(string \<times> jsval) list"

datatype error = TypeError

definition and_then :: "error + 'a \<Rightarrow> ('a \<Rightarrow> error + 'b) \<Rightarrow> error + 'b" where
  "and_then m f = (case m of Inl e \<Rightarrow> Inl e | Inr x \<Rightarrow> f x)"

text \<open>
  Two operations of the language are left to the host: \<open>Date.parse\<close>, which ECMAScript
  fixes only for its own date-time string format and otherwise leaves to the
  implementation, and the decimal rendering of a Number (\<open>Number::toString\<close>), which is
  floating-point formatting. \<open>Date.parse\<close> reads a date-time string without a UTC
  offset as local time, so its result depends on the time zone of the host at the
  moment of the call: a value of type \<open>host\<close> is the host as it is at one call.
\<close>

record host =
  date_parse :: "string \<Rightarrow> jsnum"
  number_to_string :: "jsnum \<Rightarrow> string"

subsection \<open>\<open>GameStatus\<close>\<close>

datatype GameStatus = NEW | ONGOING | FINISHED | ABANDONED

fun GameStatus_value :: "GameStatus \<Rightarrow> string" where
  "GameStatus_value NEW = ''new''"
| "GameStatus_value ONGOING = ''ongoing''"
| "GameStatus_value FINISHED = ''finished''"
| "GameStatus_value ABANDONED = ''abandoned''"

definition is_GameStatus :: "jsval \<Rightarrow> bool" where
  "is_GameStatus v =
     (v = Prim (Str (GameStatus_value NEW)) \<or> v = Prim (Str (GameStatus_value ONGOING)) \<or>
      v = Prim (Str (GameStatus_value FINISHED)) \<or> v = Prim (Str (GameStatus_value ABANDONED)))"

subsection \<open>Reading a property of the payload\<close>

datatype payload_field =
  F_id | F_name | F_status | F_n_players | F_created_on | F_last_active | F_rounds | F_scoreboard

fun field_name :: "payload_field \<Rightarrow> string" where
  "field_name F_id = ''id''"
| "field_name F_name = ''name''"
| "field_name F_status = ''status''"
| "field_name F_n_players = ''n_players''"
| "field_name F_created_on = ''created_on''"
| "field_name F_last_active = ''last_active''"
| "field_name F_rounds = ''rounds''"
| "field_name F_scoreboard = ''scoreboard''"

text \<open>
  \<open>info.k\<close> for one of the eight names the constructor reads. No built-in prototype
  defines any of them, and an array or a string has only index properties and
  \<open>length\<close>: the read finds an own data property of a plain object or nothing.
\<close>

fun property :: "jsval \<Rightarrow> payload_field \<Rightarrow> jsval" where
  "property (Obj ps) k = (case map_of ps (field_name k) of Some v \<Rightarrow> v | None \<Rightarrow> Prim Undefined)"
| "property v k = Prim Undefined"

definition nullish :: "jsval \<Rightarrow> bool" where
  "nullish v = (v = Prim Undefined \<or> v = Prim Null)"

text \<open>Reading a property of \<open>undefined\<close> or \<open>null\<close> throws a TypeError.\<close>

definition Get :: "jsval \<Rightarrow> payload_field \<Rightarrow> error + jsval" where
  "Get v k = (if nullish v then Inl TypeError else Inr (property v k))"

subsection \<open>Conversion to a primitive\<close>

fun prim_to_string :: "host \<Rightarrow> prim \<Rightarrow> string" where
  "prim_to_string h Undefined = ''undefined''"
| "prim_to_string h Null = ''null''"
| "prim_to_string h (Bool b) = (if b then ''true'' else ''false'')"
| "prim_to_string h (Num n) = number_to_string h n"
| "prim_to_string h (Str s) = s"

text \<open>
  \<open>ToPrimitive\<close> of an object tries its \<open>valueOf\<close> and \<open>toString\<close> methods and throws a
  TypeError when neither is callable and returns a primitive.
  \<^item> \<open>valueOf\<close> never yields a primitive here: an own property named \<open>valueOf\<close> is data,
    not callable, and the inherited \<open>Object.prototype.valueOf\<close> returns the object.
  \<^item> A plain object with an own property named \<open>toString\<close> has no callable
    \<open>toString\<close> (the data property shadows the inherited method), so the conversion
    throws; without it \<open>Object.prototype.toString\<close> returns \<open>[object Object]\<close>.
  \<^item> An array inherits \<open>Array.prototype.toString\<close>, which calls \<open>join\<close>: the elements'
    strings separated by commas, \<open>undefined\<close> and \<open>null\<close> elements giving the empty
    string and every other element converted by \<open>ToString\<close>, left to right.
  The order in which the two methods are tried (the hint) makes no difference on these
  values.
\<close>

fun ToPrimitive :: "host \<Rightarrow> jsval \<Rightarrow> error + prim"
  and Array_join :: "host \<Rightarrow> jsval list \<Rightarrow> error + string" where
  "ToPrimitive h (Prim p) = Inr p"
| "ToPrimitive h (Obj ps) =
     (if map_of ps ''toString'' = None then Inr (Str ''[object Object]'') else Inl TypeError)"
| "ToPrimitive h (Arr xs) = and_then (Array_join h xs) (\<lambda>s. Inr (Str s))"
| "Array_join h [] = Inr ''''"
| "Array_join h (x # xs) =
     and_then (if x = Prim Undefined \<or> x = Prim Null then Inr ''''
               else and_then (ToPrimitive h x) (\<lambda>p. Inr (prim_to_string h p)))
       (\<lambda>next. if xs = [] then Inr next
               else and_then (Array_join h xs) (\<lambda>rest. Inr (next @ '','' @ rest)))"

subsection \<open>The \<open>Date\<close> constructor\<close>

text \<open>
  \<open>new Date(value)\<close> with one argument: \<open>v = ToPrimitive(value)\<close>; the time value is the
  parse of \<open>v\<close> when \<open>v\<close> is a string and \<open>ToNumber(v)\<close> otherwise; the object stores
  \<open>TimeClip\<close> of it. NaN is the time value of an invalid date.
\<close>

fun time_of_primitive :: "host \<Rightarrow> prim \<Rightarrow> jsnum" where
  "time_of_primitive h (Str s) = date_parse h s"
| "time_of_primitive h Undefined = NaN"
| "time_of_primitive h Null = Fin 0"
| "time_of_primitive h (Bool b) = Fin (if b then 1 else 0)"
| "time_of_primitive h (Num n) = n"

definition truncate_toward_zero :: "rat \<Rightarrow> int" where
  "truncate_toward_zero q = (if q < 0 then \<lceil>q\<rceil> else \<lfloor>q\<rfloor>)"

fun TimeClip :: "jsnum \<Rightarrow> jsnum" where
  "TimeClip (Fin q) = (if \<bar>q\<bar> > 8640000000000000 then NaN else Fin (of_int (truncate_toward_zero q)))"
| "TimeClip t = NaN"

definition date_value :: "host \<Rightarrow> jsval \<Rightarrow> error + jsnum" where
  "date_value h v = and_then (ToPrimitive h v) (\<lambda>p. Inr (TimeClip (time_of_primitive h p)))"

text \<open>A time value proper: an integral number of milliseconds within the range of \<open>Date\<close>.\<close>

fun is_time_value :: "jsnum \<Rightarrow> bool" where
  "is_time_value (Fin q) = (of_int \<lfloor>q\<rfloor> = q \<and> \<bar>q\<bar> \<le> 8640000000000000)"
| "is_time_value t = False"

subsection \<open>The store of allocated objects\<close>

text \<open>
  \<open>new\<close> allocates: every \<open>Date\<close> and every \<open>Game\<close> is an object of its own, known by a
  reference. The store is the list of the objects allocated so far and a reference is
  a position in it.
\<close>

type_synonym ref = nat

record Game =
  id' :: jsval
  name :: jsval
  status :: jsval
  nPlayers :: jsval
  createdOn :: ref
  lastActive :: ref
  rounds :: jsval
  scoreboard :: jsval

datatype obj = DateObj jsnum | GameObj Game

type_synonym store = "obj list"

definition alloc :: "obj \<Rightarrow> store \<Rightarrow> ref \<times> store" where
  "alloc ob s = (length s, s @ [ob])"

definition lookup :: "store \<Rightarrow> ref \<Rightarrow> obj option" where
  "lookup s r = (if r < length s then Some (s ! r) else None)"

definition game_at :: "store \<Rightarrow> ref \<Rightarrow> Game option" where
  "game_at s r = (case lookup s r of Some (GameObj g) \<Rightarrow> Some g | _ \<Rightarrow> None)"

text \<open>\<open>d.getTime()\<close>: the time value stored in a \<open>Date\<close>.\<close>

definition getTime :: "store \<Rightarrow> ref \<Rightarrow> jsnum option" where
  "getTime s r = (case lookup s r of Some (DateObj t) \<Rightarrow> Some t | _ \<Rightarrow> None)"

definition new_Date :: "host \<Rightarrow> jsval \<Rightarrow> store \<Rightarrow> error + (ref \<times> store)" where
  "new_Date h v s = and_then (date_value h v) (\<lambda>t. Inr (alloc (DateObj t) s))"

subsection \<open>\<open>Game\<close>\<close>

text \<open>
  \<open>new Game(info)\<close>. The eight assignments of the constructor run in the order of the
  source, each one a step that may throw; the object under construction is reachable
  by nobody else until the constructor returns, so it enters the store when its fields
  are set.
\<close>

definition new_Game :: "host \<Rightarrow> jsval \<Rightarrow> store \<Rightarrow> error + (ref \<times> store)" where
  "new_Game h info s =
     and_then (Get info F_id) (\<lambda>v_id.
     and_then (Get info F_name) (\<lambda>v_name.
     and_then (Get info F_status) (\<lambda>v_status.
     and_then (Get info F_n_players) (\<lambda>v_n_players.
     and_then (Get info F_created_on) (\<lambda>v_created_on.
     and_then (new_Date h v_created_on s) (\<lambda>(d1, s1).
     and_then (Get info F_last_active) (\<lambda>v_last_active.
     and_then (new_Date h v_last_active s1) (\<lambda>(d2, s2).
     and_then (Get info F_rounds) (\<lambda>v_rounds.
     and_then (Get info F_scoreboard) (\<lambda>v_scoreboard.
       Inr (alloc (GameObj \<lparr> id' = v_id, name = v_name, status = v_status,
                             nPlayers = v_n_players, createdOn = d1, lastActive = d2,
                             rounds = v_rounds, scoreboard = v_scoreboard \<rparr>) s2)))))))))))"

text \<open>
  \<open>x === p\<close> for a primitive \<open>p\<close>: false when the types differ (an array or an object
  is never strictly equal to a primitive), otherwise equality of the values, NaN being
  equal to nothing.
\<close>

fun IsStrictlyEqual :: "jsval \<Rightarrow> prim \<Rightarrow> bool" where
  "IsStrictlyEqual (Prim q) p =
     (case (q, p) of
        (Undefined, Undefined) \<Rightarrow> True
      | (Null, Null) \<Rightarrow> True
      | (Bool a, Bool b) \<Rightarrow> a = b
      | (Num a, Num b) \<Rightarrow> a \<noteq> NaN \<and> a = b
      | (Str a, Str b) \<Rightarrow> a = b
      | _ \<Rightarrow> False)"
| "IsStrictlyEqual (Arr xs) p = False"
| "IsStrictlyEqual (Obj ps) p = False"

text \<open>\<open>isPlayable\<close> reads the receiver and returns; \<open>this\<close> is the state of the receiver.\<close>

definition isPlayable :: "Game \<Rightarrow> bool" where
  "isPlayable this = IsStrictlyEqual (status this) (Str (GameStatus_value NEW))"

text \<open>
  The call \<open>g.isPlayable()\<close> on the object at a reference, as a step on the store: the
  result (none when the reference is not a \<open>Game\<close>) and the store after the call.
\<close>

definition call_isPlayable :: "ref \<Rightarrow> store \<Rightarrow> bool option \<times> store" where
  "call_isPlayable r s = (map_option isPlayable (game_at s r), s)"

text \<open>
  The eight observable attributes of the \<open>Game\<close> at a reference, the two dates by their
  time values.
\<close>

definition attributes ::
  "store \<Rightarrow> ref \<Rightarrow> (jsval \<times> jsval \<times> jsval \<times> jsval \<times> jsnum \<times> jsnum \<times> jsval \<times> jsval) option" where
  "attributes s r =
     (case game_at s r of
        None \<Rightarrow> None
      | Some g \<Rightarrow>
          (case (getTime s (createdOn g), getTime s (lastActive g)) of
             (Some c, Some l) \<Rightarrow>
               Some (id' g, name g, status g, nPlayers g, c, l, rounds g, scoreboard g)
           | _ \<Rightarrow> None))"

subsection \<open>Auxiliary notions of the statements\<close>

text \<open>
  The values on which \<open>ToPrimitive\<close> throws, described by their shape alone: a plain
  object with an own property named \<open>toString\<close>, or an array that holds such a value.
\<close>

fun unconvertible :: "jsval \<Rightarrow> bool" where
  "unconvertible (Prim p) = False"
| "unconvertible (Obj ps) = (map_of ps ''toString'' \<noteq> None)"
| "unconvertible (Arr xs) = list_ex unconvertible xs"

text \<open>
  A date field that is absent (reads as \<open>undefined\<close>) or holds a string that
  \<open>Date.parse\<close> rejects.
\<close>

fun absent_or_unparsable :: "host \<Rightarrow> jsval \<Rightarrow> bool" where
  "absent_or_unparsable h (Prim Undefined) = True"
| "absent_or_unparsable h (Prim (Str s)) = (date_parse h s = NaN)"
| "absent_or_unparsable h v = False"

text \<open>The record the constructor fills in, given the references of its two dates.\<close>

definition built :: "jsval \<Rightarrow> ref \<Rightarrow> ref \<Rightarrow> Game" where
  "built info d1 d2 =
     \<lparr> id' = property info F_id, name = property info F_name, status = property info F_status,
       nPlayers = property info F_n_players, createdOn = d1, lastActive = d2,
       rounds = property info F_rounds, scoreboard = property info F_scoreboard \<rparr>"

text \<open>
  A host on which the scenarios of the specification are evaluated: it parses the two
  date strings that occur in them and rejects every other string. No scenario renders
  a number, so the rendering is fixed arbitrarily.
\<close>

definition scenario_host :: host where
  "scenario_host =
     \<lparr> date_parse = (\<lambda>s. if s = ''2024-01-01T00:00:00Z'' then Fin 1704067200000
                           else if s = ''2024-02-01T00:00:00Z'' then Fin 1706745600000
                           else NaN),
       number_to_string = (\<lambda>n. ''0'') \<rparr>"

definition scenario_1 :: jsval where
  "scenario_1 =
     Obj [(''id'', Prim (Num (Fin 1))), (''name'', Prim (Str ''Quiz Night'')),
          (''status'', Prim (Str ''new'')), (''n_players'', Prim (Num (Fin 4))),
          (''created_on'', Prim (Str ''2024-01-01T00:00:00Z'')),
          (''last_active'', Prim (Str ''2024-01-01T00:00:00Z'')),
          (''rounds'', Arr []), (''scoreboard'', Arr [])]"

definition scenario_3 :: jsval where
  "scenario_3 =
     Obj [(''id'', Prim (Num (Fin 2))), (''name'', Prim (Str ''Trivia'')),
          (''status'', Prim (Str ''finished'')), (''n_players'', Prim (Num (Fin 2))),
          (''created_on'', Prim (Str ''bad-date'')),
          (''last_active'', Prim (Str ''2024-02-01T00:00:00Z'')),
          (''rounds'', Arr [Obj [(''r'', Prim (Num (Fin 1)))]]),
          (''scoreboard'', Arr [Obj [(''p'', Prim (Num (Fin 1))), (''s'', Prim (Num (Fin 10)))]])]"


section \<open>Basic facts\<close>

lemmas eval_simps =
  new_Game_def Get_def nullish_def new_Date_def date_value_def alloc_def
  truncate_toward_zero_def game_at_def getTime_def lookup_def scenario_host_def
  scenario_1_def scenario_3_def isPlayable_def call_isPlayable_def attributes_def
  is_GameStatus_def

lemma and_then_Inr [simp]: "and_then (Inr x) f = f x"
  by (simp add: and_then_def)

lemma and_then_Inl [simp]: "and_then (Inl e) f = Inl e"
  by (simp add: and_then_def)

lemma error_is_TypeError [simp]: "(e::error) = TypeError"
  by (cases e) simp

lemma ToPrimitive_throws_aux:
  "(ToPrimitive h v = Inl TypeError) = unconvertible v"
  "(Array_join h xs = Inl TypeError) = list_ex unconvertible xs"
proof (induction h v and h xs rule: ToPrimitive_Array_join.induct)
  case (1 h p)
  then show ?case by simp
next
  case (2 h ps)
  then show ?case by simp
next
  case (3 h xs)
  then show ?case by (cases "Array_join h xs") simp_all
next
  case (4 h)
  then show ?case by simp
next
  case (5 h x xs)
  show ?case
  proof (cases "x = Prim Undefined \<or> x = Prim Null")
    case True
    then show ?thesis using 5
      by (cases "Array_join h xs") auto
  next
    case False
    then show ?thesis using 5
      by (cases "ToPrimitive h x"; cases "Array_join h xs") auto
  qed
qed

lemma Get_property: "\<not> nullish info \<Longrightarrow> Get info k = Inr (property info k)"
  by (simp add: Get_def)

lemma new_Game_nullish: "nullish info \<Longrightarrow> new_Game h info s = Inl TypeError"
  by (simp add: new_Game_def Get_def)

lemma new_Game_unfold:
  "\<not> nullish info \<Longrightarrow>
   new_Game h info s =
     and_then (date_value h (property info F_created_on)) (\<lambda>c.
     and_then (date_value h (property info F_last_active)) (\<lambda>l.
       Inr (Suc (Suc (length s)),
            s @ [DateObj c, DateObj l, GameObj (built info (length s) (Suc (length s)))])))"
  by (cases "date_value h (property info F_created_on)";
      cases "date_value h (property info F_last_active)")
     (simp_all add: new_Game_def Get_def new_Date_def alloc_def built_def)

lemma date_value_Inr:
  "\<not> unconvertible v \<Longrightarrow> \<exists>p. ToPrimitive h v = Inr p \<and> date_value h v = Inr (TimeClip (time_of_primitive h p))"
  using ToPrimitive_throws_aux(1)[of h v]
  by (cases "ToPrimitive h v") (simp_all add: date_value_def)

lemma date_value_Inl: "(date_value h v = Inl TypeError) = unconvertible v"
  using ToPrimitive_throws_aux(1)[of h v]
  by (cases "ToPrimitive h v") (simp_all add: date_value_def)

lemma TimeClip_time_value: "is_time_value t \<Longrightarrow> TimeClip t = t"
proof (cases t)
  case (Fin q)
  assume "is_time_value t"
  with Fin have i: "of_int \<lfloor>q\<rfloor> = q" and b: "\<bar>q\<bar> \<le> 8640000000000000" by simp_all
  have "of_int \<lceil>q\<rceil> = q" using i by (metis ceiling_of_int)
  with i b Fin show ?thesis by (simp add: truncate_toward_zero_def)
qed simp_all

lemma new_Game_ok:
  assumes "\<not> nullish info"
    and "date_value h (property info F_created_on) = Inr c"
    and "date_value h (property info F_last_active) = Inr l"
  shows "new_Game h info s =
           Inr (Suc (Suc (length s)),
                s @ [DateObj c, DateObj l, GameObj (built info (length s) (Suc (length s)))])"
  using assms by (simp add: new_Game_unfold)

lemma new_Game_InrD:
  assumes "new_Game h info s = Inr (r, s')"
  shows "\<not> nullish info \<and>
         (\<exists>c l. date_value h (property info F_created_on) = Inr c \<and>
                date_value h (property info F_last_active) = Inr l \<and>
                r = Suc (Suc (length s)) \<and>
                s' = s @ [DateObj c, DateObj l, GameObj (built info (length s) (Suc (length s)))])"
proof -
  have n: "\<not> nullish info" using assms new_Game_nullish[of info h s] by auto
  show ?thesis using assms n
    by (cases "date_value h (property info F_created_on)";
        cases "date_value h (property info F_last_active)")
       (auto simp: new_Game_unfold)
qed

lemma game_at_built [simp]:
  "game_at (s @ [DateObj c, DateObj l, GameObj g]) (Suc (Suc (length s))) = Some g"
  by (simp add: game_at_def lookup_def nth_append)

lemma getTime_built [simp]:
  "getTime (s @ [DateObj c, DateObj l, GameObj g]) (length s) = Some c"
  "getTime (s @ [DateObj c, DateObj l, GameObj g]) (Suc (length s)) = Some l"
  by (simp_all add: getTime_def lookup_def nth_append)

lemma lookup_append: "lookup s q = Some ob \<Longrightarrow> lookup (s @ t) q = Some ob"
  by (auto simp: lookup_def nth_append split: if_splits)

lemma built_simps [simp]:
  "id' (built info a b) = property info F_id"
  "name (built info a b) = property info F_name"
  "status (built info a b) = property info F_status"
  "nPlayers (built info a b) = property info F_n_players"
  "createdOn (built info a b) = a"
  "lastActive (built info a b) = b"
  "rounds (built info a b) = property info F_rounds"
  "scoreboard (built info a b) = property info F_scoreboard"
  by (simp_all add: built_def)

lemma IsStrictlyEqual_Str: "IsStrictlyEqual v (Str s) = (v = Prim (Str s))"
proof (cases v)
  case (Prim p)
  then show ?thesis by (cases p) auto
qed simp_all

lemma getTime_append:
  assumes "getTime s q = Some t"
  shows "getTime (s @ u) q = Some t"
proof -
  have "lookup s q = Some (DateObj t)"
    using assms by (auto simp: getTime_def split: option.splits obj.splits)
  then have "lookup (s @ u) q = Some (DateObj t)" by (rule lookup_append)
  then show ?thesis by (simp add: getTime_def)
qed

lemma game_at_append:
  assumes "game_at s q = Some g"
  shows "game_at (s @ u) q = Some g"
proof -
  have "lookup s q = Some (GameObj g)"
    using assms by (auto simp: game_at_def split: option.splits obj.splits)
  then have "lookup (s @ u) q = Some (GameObj g)" by (rule lookup_append)
  then show ?thesis by (simp add: game_at_def)
qed

lemma attributes_append:
  assumes "attributes s q = Some a"
  shows "attributes (s @ u) q = Some a"
proof -
  obtain g c l where g: "game_at s q = Some g"
    and c: "getTime s (createdOn g) = Some c" and l: "getTime s (lastActive g) = Some l"
    and a: "a = (id' g, name g, status g, nPlayers g, c, l, rounds g, scoreboard g)"
    using assms by (auto simp: attributes_def split: option.splits)
  show ?thesis
    using game_at_append[OF g, of u] getTime_append[OF c, of u] getTime_append[OF l, of u] a
    by (simp add: attributes_def)
qed

lemma property_nullish: "nullish info \<Longrightarrow> property info k = Prim Undefined"
  by (auto simp: nullish_def)

lemma date_value_Str: "date_value h (Prim (Str c)) = Inr (TimeClip (date_parse h c))"
  by (simp add: date_value_def)

lemma date_value_invalid:
  "absent_or_unparsable h v \<Longrightarrow> date_value h v = Inr NaN"
  by (induction h v rule: absent_or_unparsable.induct) (simp_all add: date_value_def)

lemma new_Game_convertible:
  assumes "\<not> nullish info"
    and "\<not> unconvertible (property info F_created_on)"
    and "\<not> unconvertible (property info F_last_active)"
  shows "\<exists>c l. date_value h (property info F_created_on) = Inr c \<and>
               date_value h (property info F_last_active) = Inr l \<and>
               new_Game h info s =
                 Inr (Suc (Suc (length s)),
                      s @ [DateObj c, DateObj l, GameObj (built info (length s) (Suc (length s)))])"
proof -
  obtain c where c: "date_value h (property info F_created_on) = Inr c"
    using date_value_Inr[OF assms(2)] by blast
  obtain l where l: "date_value h (property info F_last_active) = Inr l"
    using date_value_Inr[OF assms(3)] by blast
  show ?thesis using new_Game_ok[OF assms(1) c l] c l by blast
qed

lemma date_value_primitives:
  "date_value h (Prim Undefined) = Inr NaN"
  "date_value h (Prim Null) = Inr (Fin 0)"
  "date_value h (Prim (Bool False)) = Inr (Fin 0)"
  "date_value h (Prim (Bool True)) = Inr (Fin 1)"
  by (simp_all add: date_value_def truncate_toward_zero_def)

lemma new_Game_Inl:
  "(new_Game h info s = Inl TypeError) =
     (nullish info \<or> unconvertible (property info F_created_on) \<or>
      unconvertible (property info F_last_active))"
proof (cases "nullish info")
  case True
  then show ?thesis by (simp add: new_Game_nullish)
next
  case False
  show ?thesis
    using False date_value_Inl[of h "property info F_created_on"]
      date_value_Inl[of h "property info F_last_active"]
    by (cases "date_value h (property info F_created_on)";
        cases "date_value h (property info F_last_active)")
       (simp_all add: new_Game_unfold)
qed

section \<open>The claims\<close>

subsection \<open>\<open>isPlayable\<close>\<close>

text \<open>
  Claim C1. For every \<open>Game\<close>, \<open>isPlayable()\<close> returns true if and only if the status
  field equals \<open>GameStatus.NEW\<close>, the string \<open>new\<close>; with any of the four members of
  \<open>GameStatus\<close> as status it returns true for \<open>NEW\<close> and false for \<open>ONGOING\<close>,
  \<open>FINISHED\<close> and \<open>ABANDONED\<close>.
\<close>

theorem isPlayable_iff_status_NEW:
  "(isPlayable g \<longleftrightarrow> status g = Prim (Str (GameStatus_value NEW))) \<and>
   (isPlayable (g\<lparr>status := Prim (Str (GameStatus_value st))\<rparr>) \<longleftrightarrow> st = NEW)"
  by (cases st) (simp_all add: isPlayable_def IsStrictlyEqual_Str)

text \<open>
  The game built from scenario 1 is playable; the same game with status \<open>ongoing\<close>
  (scenario 2) is not.
\<close>

theorem isPlayable_iff_status_NEW_witness:
  "isPlayable (built scenario_1 0 1) \<and>
   \<not> isPlayable ((built scenario_1 0 1)\<lparr>status := Prim (Str (GameStatus_value ONGOING))\<rparr>)"
  using isPlayable_iff_status_NEW[of "built scenario_1 0 1" ONGOING]
  by (simp add: scenario_1_def)

subsection \<open>The constructor\<close>

text \<open>
  Claim C2. For every payload, construction completes unless the payload is \<open>null\<close> or
  \<open>undefined\<close> or one of its two date fields is unconvertible, in which case it throws
  and there is no constructed \<open>Game\<close>; and whenever it completes, the fields \<open>id\<close>,
  \<open>name\<close>, \<open>status\<close>, \<open>nPlayers\<close>, \<open>rounds\<close> and \<open>scoreboard\<close> of the constructed
  \<open>Game\<close> are the payload's \<open>id\<close>, \<open>name\<close>, \<open>status\<close>, \<open>n_players\<close>, \<open>rounds\<close> and
  \<open>scoreboard\<close>, unchanged.
\<close>

theorem new_Game_copies_fields:
  "(\<not> nullish info \<and> \<not> unconvertible (property info F_created_on) \<and>
    \<not> unconvertible (property info F_last_active) \<longrightarrow>
      (\<exists>r s' g. new_Game h info s = Inr (r, s') \<and> game_at s' r = Some g \<and>
         id' g = property info F_id \<and> name g = property info F_name \<and>
         status g = property info F_status \<and> nPlayers g = property info F_n_players \<and>
         rounds g = property info F_rounds \<and> scoreboard g = property info F_scoreboard)) \<and>
   (nullish info \<or> unconvertible (property info F_created_on) \<or>
    unconvertible (property info F_last_active) \<longrightarrow> new_Game h info s = Inl TypeError) \<and>
   (new_Game h info s = Inr (r, s') \<longrightarrow>
      (\<exists>g. game_at s' r = Some g \<and>
         id' g = property info F_id \<and> name g = property info F_name \<and>
         status g = property info F_status \<and> nPlayers g = property info F_n_players \<and>
         rounds g = property info F_rounds \<and> scoreboard g = property info F_scoreboard))"
proof -
  have completes: "\<exists>r s' g. new_Game h info s = Inr (r, s') \<and> game_at s' r = Some g \<and>
         id' g = property info F_id \<and> name g = property info F_name \<and>
         status g = property info F_status \<and> nPlayers g = property info F_n_players \<and>
         rounds g = property info F_rounds \<and> scoreboard g = property info F_scoreboard"
    if n: "\<not> nullish info" and c: "\<not> unconvertible (property info F_created_on)"
      and l: "\<not> unconvertible (property info F_last_active)"
  proof -
    obtain tc tl where
      "new_Game h info s =
         Inr (Suc (Suc (length s)),
              s @ [DateObj tc, DateObj tl, GameObj (built info (length s) (Suc (length s)))])"
      using new_Game_convertible[OF n c l] by blast
    then show ?thesis by simp
  qed
  have throws: "new_Game h info s = Inl TypeError"
    if "nullish info \<or> unconvertible (property info F_created_on) \<or>
        unconvertible (property info F_last_active)"
    using that new_Game_Inl[of h info s] by simp
  have copied: "\<exists>g. game_at s' r = Some g \<and>
         id' g = property info F_id \<and> name g = property info F_name \<and>
         status g = property info F_status \<and> nPlayers g = property info F_n_players \<and>
         rounds g = property info F_rounds \<and> scoreboard g = property info F_scoreboard"
    if "new_Game h info s = Inr (r, s')"
    using new_Game_InrD[OF that] by auto
  show ?thesis using completes throws copied by blast
qed

text \<open>
  Scenario 1, and the payload \<open>{id: 7}\<close>, both constructed in the empty store: each
  construction completes and the fields are the payload's.
\<close>

theorem new_Game_copies_fields_witness:
  "\<not> nullish scenario_1 \<and> \<not> unconvertible (property scenario_1 F_created_on) \<and>
   \<not> unconvertible (property scenario_1 F_last_active) \<and>
   (\<exists>r s' g. new_Game scenario_host scenario_1 [] = Inr (r, s') \<and> game_at s' r = Some g \<and>
      id' g = Prim (Num (Fin 1)) \<and> name g = Prim (Str ''Quiz Night'') \<and>
      status g = Prim (Str ''new'') \<and> nPlayers g = Prim (Num (Fin 4)) \<and>
      rounds g = Arr [] \<and> scoreboard g = Arr []) \<and>
   \<not> nullish (Obj [(''id'', Prim (Num (Fin 7)))]) \<and>
   (\<exists>r s' g. new_Game scenario_host (Obj [(''id'', Prim (Num (Fin 7)))]) [] = Inr (r, s') \<and>
      game_at s' r = Some g \<and> id' g = Prim (Num (Fin 7)) \<and> name g = Prim Undefined \<and>
      status g = Prim Undefined \<and> nPlayers g = Prim Undefined \<and>
      rounds g = Prim Undefined \<and> scoreboard g = Prim Undefined)"
proof -
  let ?p = "Obj [(''id'', Prim (Num (Fin 7)))]"
  have n1: "\<not> nullish scenario_1" and c1: "\<not> unconvertible (property scenario_1 F_created_on)"
    and l1: "\<not> unconvertible (property scenario_1 F_last_active)"
    by (simp_all add: nullish_def scenario_1_def)
  have n7: "\<not> nullish ?p" and c7: "\<not> unconvertible (property ?p F_created_on)"
    and l7: "\<not> unconvertible (property ?p F_last_active)"
    by (simp_all add: nullish_def)
  have f1: "property scenario_1 F_id = Prim (Num (Fin 1))"
    "property scenario_1 F_name = Prim (Str ''Quiz Night'')"
    "property scenario_1 F_status = Prim (Str ''new'')"
    "property scenario_1 F_n_players = Prim (Num (Fin 4))"
    "property scenario_1 F_rounds = Arr []" "property scenario_1 F_scoreboard = Arr []"
    by (simp_all add: scenario_1_def)
  have f7: "property ?p F_id = Prim (Num (Fin 7))" "property ?p F_name = Prim Undefined"
    "property ?p F_status = Prim Undefined" "property ?p F_n_players = Prim Undefined"
    "property ?p F_rounds = Prim Undefined" "property ?p F_scoreboard = Prim Undefined"
    by simp_all
  have a: "\<exists>r s' g. new_Game scenario_host scenario_1 [] = Inr (r, s') \<and>
      game_at s' r = Some g \<and>
      id' g = Prim (Num (Fin 1)) \<and> name g = Prim (Str ''Quiz Night'') \<and>
      status g = Prim (Str ''new'') \<and> nPlayers g = Prim (Num (Fin 4)) \<and>
      rounds g = Arr [] \<and> scoreboard g = Arr []"
    using n1 c1 l1 new_Game_copies_fields[of scenario_1 scenario_host "[]"]
    unfolding f1 by blast
  have b: "\<exists>r s' g. new_Game scenario_host ?p [] = Inr (r, s') \<and>
      game_at s' r = Some g \<and> id' g = Prim (Num (Fin 7)) \<and> name g = Prim Undefined \<and>
      status g = Prim Undefined \<and> nPlayers g = Prim Undefined \<and>
      rounds g = Prim Undefined \<and> scoreboard g = Prim Undefined"
    using n7 c7 l7 new_Game_copies_fields[of ?p scenario_host "[]"]
    unfolding f7 by blast
  show ?thesis using n1 c1 l1 n7 a b by blast
qed

text \<open>
  Claim C3, as amended. The constructor stores the payload's status as it is: the
  status of the constructed \<open>Game\<close> is a member of \<open>GameStatus\<close> exactly when the
  payload's status is one of the strings \<open>new\<close>, \<open>ongoing\<close>, \<open>finished\<close> and
  \<open>abandoned\<close>.
\<close>

theorem constructed_status_is_payload_status:
  assumes "new_Game h info s = Inr (r, s')"
  shows "\<exists>g. game_at s' r = Some g \<and> status g = property info F_status \<and>
             (is_GameStatus (status g) \<longleftrightarrow>
              property info F_status = Prim (Str ''new'') \<or>
              property info F_status = Prim (Str ''ongoing'') \<or>
              property info F_status = Prim (Str ''finished'') \<or>
              property info F_status = Prim (Str ''abandoned''))"
  using new_Game_InrD[OF assms] by (auto simp: is_GameStatus_def)

text \<open>Scenario 3, whose status \<open>finished\<close> is a member of the enumeration.\<close>

theorem constructed_status_is_payload_status_witness:
  "new_Game scenario_host scenario_3 [] =
     Inr (2, [DateObj NaN, DateObj (Fin 1706745600000), GameObj (built scenario_3 0 1)]) \<and>
   (\<exists>g. game_at [DateObj NaN, DateObj (Fin 1706745600000), GameObj (built scenario_3 0 1)] 2
          = Some g \<and>
        status g = Prim (Str ''finished'') \<and> is_GameStatus (status g))"
proof -
  have c: "new_Game scenario_host scenario_3 [] =
             Inr (2, [DateObj NaN, DateObj (Fin 1706745600000), GameObj (built scenario_3 0 1)])"
    by (simp add: eval_simps built_def)
  show ?thesis
    using c constructed_status_is_payload_status[OF c] by (auto simp: scenario_3_def)
qed

text \<open>
  The claim as stated fails: a payload whose status is \<open>paused\<close> is constructed without
  complaint, and its status is none of the four members.
\<close>

theorem constructed_status_counterexample:
  "new_Game scenario_host (Obj [(''status'', Prim (Str ''paused''))]) [] =
     Inr (2, [DateObj NaN, DateObj NaN,
              GameObj \<lparr> id' = Prim Undefined, name = Prim Undefined,
                        status = Prim (Str ''paused''), nPlayers = Prim Undefined,
                        createdOn = 0, lastActive = 1,
                        rounds = Prim Undefined, scoreboard = Prim Undefined \<rparr>]) \<and>
   \<not> is_GameStatus (Prim (Str ''paused''))"
  by (simp add: eval_simps)

text \<open>
  Claim C4. For every payload whose \<open>created_on\<close> and \<open>last_active\<close> are strings that
  the host's \<open>Date.parse\<close> maps to a time value, construction completes and the time
  values of \<open>createdOn\<close> and \<open>lastActive\<close> are the parses of those strings.
\<close>

theorem new_Game_dates_are_parsed:
  assumes "property info F_created_on = Prim (Str c)"
    and "property info F_last_active = Prim (Str l)"
    and "is_time_value (date_parse h c)"
    and "is_time_value (date_parse h l)"
  shows "\<exists>r s' g. new_Game h info s = Inr (r, s') \<and> game_at s' r = Some g \<and>
                 getTime s' (createdOn g) = Some (date_parse h c) \<and>
                 getTime s' (lastActive g) = Some (date_parse h l)"
proof -
  have n: "\<not> nullish info" using assms(1) property_nullish[of info F_created_on] by auto
  have c: "date_value h (property info F_created_on) = Inr (date_parse h c)"
    using assms(1,3) by (simp add: date_value_Str TimeClip_time_value)
  have l: "date_value h (property info F_last_active) = Inr (date_parse h l)"
    using assms(2,4) by (simp add: date_value_Str TimeClip_time_value)
  show ?thesis using new_Game_ok[OF n c l, of s] by simp
qed

text \<open>Scenario 1: both dates are the first of January 2024, midnight UTC.\<close>

theorem new_Game_dates_are_parsed_witness:
  "property scenario_1 F_created_on = Prim (Str ''2024-01-01T00:00:00Z'') \<and>
   property scenario_1 F_last_active = Prim (Str ''2024-01-01T00:00:00Z'') \<and>
   is_time_value (date_parse scenario_host ''2024-01-01T00:00:00Z'') \<and>
   (\<exists>r s' g. new_Game scenario_host scenario_1 [] = Inr (r, s') \<and> game_at s' r = Some g \<and>
              getTime s' (createdOn g) = Some (Fin 1704067200000) \<and>
              getTime s' (lastActive g) = Some (Fin 1704067200000))"
proof -
  have p: "property scenario_1 F_created_on = Prim (Str ''2024-01-01T00:00:00Z'')"
    "property scenario_1 F_last_active = Prim (Str ''2024-01-01T00:00:00Z'')"
    by (simp_all add: scenario_1_def)
  have t: "is_time_value (date_parse scenario_host ''2024-01-01T00:00:00Z'')"
    by (simp add: scenario_host_def)
  have v: "date_parse scenario_host ''2024-01-01T00:00:00Z'' = Fin 1704067200000"
    by (simp add: scenario_host_def)
  show ?thesis
    using p t new_Game_dates_are_parsed[OF p t t, of "[]"] unfolding v by simp
qed

text \<open>
  Claim C5, as amended. For every payload that is not \<open>null\<close> or \<open>undefined\<close> and whose
  two date fields are convertible (neither is, or holds inside an array, a plain object
  with an own \<open>toString\<close> property), construction signals no error, and a date field
  that is absent or a string the parser rejects gives the invalid-date time value NaN
  in the corresponding timestamp.
\<close>

theorem invalid_date_fields:
  assumes "\<not> nullish info"
    and "\<not> unconvertible (property info F_created_on)"
    and "\<not> unconvertible (property info F_last_active)"
  shows "\<exists>r s' g. new_Game h info s = Inr (r, s') \<and> game_at s' r = Some g \<and>
           (absent_or_unparsable h (property info F_created_on) \<longrightarrow>
              getTime s' (createdOn g) = Some NaN) \<and>
           (absent_or_unparsable h (property info F_last_active) \<longrightarrow>
              getTime s' (lastActive g) = Some NaN)"
proof -
  obtain c l where c: "date_value h (property info F_created_on) = Inr c"
    and l: "date_value h (property info F_last_active) = Inr l"
    and g: "new_Game h info s =
              Inr (Suc (Suc (length s)),
                   s @ [DateObj c, DateObj l, GameObj (built info (length s) (Suc (length s)))])"
    using new_Game_convertible[OF assms] by blast
  have "absent_or_unparsable h (property info F_created_on) \<longrightarrow> c = NaN"
    using c date_value_invalid[of h "property info F_created_on"] by auto
  moreover have "absent_or_unparsable h (property info F_last_active) \<longrightarrow> l = NaN"
    using l date_value_invalid[of h "property info F_last_active"] by auto
  ultimately show ?thesis using g by simp
qed

text \<open>
  Scenario 3: \<open>created_on\<close> is the string \<open>bad-date\<close>, which the parser rejects, and
  \<open>createdOn\<close> is an invalid date. A payload without \<open>last_active\<close> gives an invalid
  \<open>lastActive\<close>.
\<close>

theorem invalid_date_fields_witness:
  "\<not> nullish scenario_3 \<and>
   \<not> unconvertible (property scenario_3 F_created_on) \<and>
   \<not> unconvertible (property scenario_3 F_last_active) \<and>
   absent_or_unparsable scenario_host (property scenario_3 F_created_on) \<and>
   (\<exists>r s' g. new_Game scenario_host scenario_3 [] = Inr (r, s') \<and> game_at s' r = Some g \<and>
              getTime s' (createdOn g) = Some NaN)"
proof -
  have n: "\<not> nullish scenario_3" by (simp add: nullish_def scenario_3_def)
  have c: "\<not> unconvertible (property scenario_3 F_created_on)"
    and l: "\<not> unconvertible (property scenario_3 F_last_active)"
    by (simp_all add: scenario_3_def)
  have a: "absent_or_unparsable scenario_host (property scenario_3 F_created_on)"
    by (simp add: scenario_3_def scenario_host_def)
  show ?thesis
    using n c l a invalid_date_fields[OF n c l, of scenario_host "[]"] by blast
qed

text \<open>
  The claim as stated fails: here \<open>last_active\<close> is absent and \<open>created_on\<close> is the
  decoded JSON object \<open>{"toString": null}\<close>, no date in any format. \<open>new Date\<close> cannot
  convert the object to a primitive and construction throws a TypeError.
\<close>

theorem construction_signals_error_counterexample:
  "new_Game scenario_host (Obj [(''created_on'', Obj [(''toString'', Prim Null)])]) [] =
     Inl TypeError"
  by (simp add: eval_simps)

text \<open>
  Claim C6, as amended. For every object payload whose two date fields are
  convertible, construction succeeds, and each of the fields \<open>id\<close>, \<open>name\<close>, \<open>status\<close>,
  \<open>n_players\<close>, \<open>rounds\<close> and \<open>scoreboard\<close> that the payload lacks is \<open>undefined\<close> in the
  constructed \<open>Game\<close>.
\<close>

theorem missing_fields_are_undefined:
  assumes "\<not> unconvertible (property (Obj ps) F_created_on)"
    and "\<not> unconvertible (property (Obj ps) F_last_active)"
  shows "\<exists>r s' g. new_Game h (Obj ps) s = Inr (r, s') \<and> game_at s' r = Some g \<and>
           (map_of ps ''id'' = None \<longrightarrow> id' g = Prim Undefined) \<and>
           (map_of ps ''name'' = None \<longrightarrow> name g = Prim Undefined) \<and>
           (map_of ps ''status'' = None \<longrightarrow> status g = Prim Undefined) \<and>
           (map_of ps ''n_players'' = None \<longrightarrow> nPlayers g = Prim Undefined) \<and>
           (map_of ps ''rounds'' = None \<longrightarrow> rounds g = Prim Undefined) \<and>
           (map_of ps ''scoreboard'' = None \<longrightarrow> scoreboard g = Prim Undefined)"
proof -
  have n: "\<not> nullish (Obj ps)" by (simp add: nullish_def)
  obtain c l where
    "new_Game h (Obj ps) s =
       Inr (Suc (Suc (length s)),
            s @ [DateObj c, DateObj l, GameObj (built (Obj ps) (length s) (Suc (length s)))])"
    using new_Game_convertible[OF n assms] by blast
  then show ?thesis by simp
qed

text \<open>Scenario 4: a payload without \<open>n_players\<close>.\<close>

theorem missing_fields_are_undefined_witness:
  "map_of [(''id'', Prim (Num (Fin 1))), (''name'', Prim (Str ''Quiz Night'')),
           (''status'', Prim (Str ''new'')),
           (''created_on'', Prim (Str ''2024-01-01T00:00:00Z'')),
           (''last_active'', Prim (Str ''2024-01-01T00:00:00Z'')),
           (''rounds'', Arr []), (''scoreboard'', Arr [])] ''n_players'' = None \<and>
   (\<exists>r s' g.
      new_Game scenario_host
        (Obj [(''id'', Prim (Num (Fin 1))), (''name'', Prim (Str ''Quiz Night'')),
              (''status'', Prim (Str ''new'')),
              (''created_on'', Prim (Str ''2024-01-01T00:00:00Z'')),
              (''last_active'', Prim (Str ''2024-01-01T00:00:00Z'')),
              (''rounds'', Arr []), (''scoreboard'', Arr [])]) [] = Inr (r, s') \<and>
      game_at s' r = Some g \<and> nPlayers g = Prim Undefined)"
proof -
  let ?ps = "[(''id'', Prim (Num (Fin 1))), (''name'', Prim (Str ''Quiz Night'')),
              (''status'', Prim (Str ''new'')),
              (''created_on'', Prim (Str ''2024-01-01T00:00:00Z'')),
              (''last_active'', Prim (Str ''2024-01-01T00:00:00Z'')),
              (''rounds'', Arr []), (''scoreboard'', Arr [])]"
  have m: "map_of ?ps ''n_players'' = None" by simp
  have c: "\<not> unconvertible (property (Obj ?ps) F_created_on)"
    and l: "\<not> unconvertible (property (Obj ?ps) F_last_active)"
    by simp_all
  show ?thesis
    using m missing_fields_are_undefined[OF c l, of scenario_host "[]"] by blast
qed

text \<open>
  The claim as stated fails: this payload lacks \<open>n_players\<close> (and more), yet its
  construction does not succeed, because \<open>last_active\<close> is an array holding an object
  with an own \<open>toString\<close> property.
\<close>

theorem missing_field_counterexample:
  "map_of [(''id'', Prim (Num (Fin 1))),
           (''last_active'', Arr [Obj [(''toString'', Prim (Bool False))]])] ''n_players'' = None \<and>
   new_Game scenario_host
     (Obj [(''id'', Prim (Num (Fin 1))),
           (''last_active'', Arr [Obj [(''toString'', Prim (Bool False))]])]) [] = Inl TypeError"
  by (simp add: eval_simps)




text \<open>
  Claim C8. No operation of the class writes a field of a \<open>Game\<close>. A call of
  \<open>isPlayable\<close> leaves the store as it was, and with it the attributes of every
  \<open>Game\<close>; a construction only adds objects to the store: every object that was there
  is still there, unchanged, and so are the attributes of every earlier \<open>Game\<close>.
\<close>

theorem Game_fields_never_mutated:
  "snd (call_isPlayable r s) = s \<and>
   attributes (snd (call_isPlayable r s)) q = attributes s q \<and>
   (new_Game h info s = Inr (r', s') \<longrightarrow> lookup s q = Some ob \<longrightarrow> lookup s' q = Some ob) \<and>
   (new_Game h info s = Inr (r', s') \<longrightarrow> attributes s q = Some a \<longrightarrow> attributes s' q = Some a)"
proof -
  have call: "snd (call_isPlayable r s) = s" by (simp add: call_isPlayable_def)
  have grow: "\<exists>t. s' = s @ t" if "new_Game h info s = Inr (r', s')"
    using new_Game_InrD[OF that] by blast
  have l: "lookup s' q = Some ob" if "new_Game h info s = Inr (r', s')" "lookup s q = Some ob"
    using grow[OF that(1)] lookup_append[OF that(2)] by blast
  have a: "attributes s' q = Some a"
    if "new_Game h info s = Inr (r', s')" "attributes s q = Some a"
    using grow[OF that(1)] attributes_append[OF that(2)] by blast
  show ?thesis using call l a by simp
qed

text \<open>
  The game of scenario 1 after a call of \<open>isPlayable\<close> and after the construction of the
  game of scenario 3 in the same store.
\<close>

theorem Game_fields_never_mutated_witness:
  "call_isPlayable 2 [DateObj (Fin 1704067200000), DateObj (Fin 1704067200000),
                      GameObj (built scenario_1 0 1)] =
     (Some True, [DateObj (Fin 1704067200000), DateObj (Fin 1704067200000),
                  GameObj (built scenario_1 0 1)]) \<and>
   new_Game scenario_host scenario_3
     [DateObj (Fin 1704067200000), DateObj (Fin 1704067200000), GameObj (built scenario_1 0 1)] =
     Inr (5, [DateObj (Fin 1704067200000), DateObj (Fin 1704067200000),
              GameObj (built scenario_1 0 1),
              DateObj NaN, DateObj (Fin 1706745600000), GameObj (built scenario_3 3 4)]) \<and>
   lookup [DateObj (Fin 1704067200000), DateObj (Fin 1704067200000),
           GameObj (built scenario_1 0 1),
           DateObj NaN, DateObj (Fin 1706745600000), GameObj (built scenario_3 3 4)] 2 =
     Some (GameObj (built scenario_1 0 1))"
proof -
  let ?s = "[DateObj (Fin 1704067200000), DateObj (Fin 1704067200000),
             GameObj (built scenario_1 0 1)]"
  let ?s' = "?s @ [DateObj NaN, DateObj (Fin 1706745600000), GameObj (built scenario_3 3 4)]"
  have c: "new_Game scenario_host scenario_3 ?s = Inr (5, ?s')"
    by (simp add: eval_simps built_def)
  have l: "lookup ?s 2 = Some (GameObj (built scenario_1 0 1))"
    by (simp add: lookup_def)
  have p: "fst (call_isPlayable 2 ?s) = Some True"
    by (simp add: call_isPlayable_def game_at_def lookup_def isPlayable_def built_def
        scenario_1_def)
  have "snd (call_isPlayable 2 ?s) = ?s \<and> lookup ?s' 2 = Some (GameObj (built scenario_1 0 1))"
    using c l
      Game_fields_never_mutated[of 2 ?s 2 scenario_host scenario_3 5 ?s'
        "GameObj (built scenario_1 0 1)"]
    by blast
  with p c show ?thesis by (simp add: prod_eq_iff)
qed

text \<open>
  Claim C9. \<open>isPlayable\<close> compares by strict, case-sensitive equality with the string
  \<open>new\<close>: for every \<open>Game\<close> whose status is anything else it returns false, in
  particular for the strings \<open>NEW\<close> and \<open>New\<close>, for \<open>undefined\<close>, \<open>null\<close>, a boolean, a
  number, an array and an object; and the \<open>Game\<close> constructed from a payload whose
  status is absent or anything but \<open>new\<close> is not playable.
\<close>

theorem isPlayable_false_unless_new:
  "(status g \<noteq> Prim (Str ''new'') \<longrightarrow> \<not> isPlayable g) \<and>
   \<not> isPlayable (g\<lparr>status := Prim (Str ''NEW'')\<rparr>) \<and>
   \<not> isPlayable (g\<lparr>status := Prim (Str ''New'')\<rparr>) \<and>
   \<not> isPlayable (g\<lparr>status := Prim Undefined\<rparr>) \<and>
   \<not> isPlayable (g\<lparr>status := Prim Null\<rparr>) \<and>
   \<not> isPlayable (g\<lparr>status := Prim (Bool b)\<rparr>) \<and>
   \<not> isPlayable (g\<lparr>status := Prim (Num n)\<rparr>) \<and>
   \<not> isPlayable (g\<lparr>status := Arr xs\<rparr>) \<and>
   \<not> isPlayable (g\<lparr>status := Obj ps\<rparr>) \<and>
   (new_Game h info s = Inr (r, s') \<and> property info F_status \<noteq> Prim (Str ''new'') \<longrightarrow>
      fst (call_isPlayable r s') = Some False)"
proof -
  have constructed: "fst (call_isPlayable r s') = Some False"
    if c: "new_Game h info s = Inr (r, s')" and p: "property info F_status \<noteq> Prim (Str ''new'')"
  proof -
    obtain g where "game_at s' r = Some g" and "status g = property info F_status"
      using new_Game_InrD[OF c] by auto
    with p show ?thesis
      by (simp add: call_isPlayable_def isPlayable_def IsStrictlyEqual_Str)
  qed
  show ?thesis using constructed
    by (simp add: isPlayable_def IsStrictlyEqual_Str)
qed

text \<open>
  The payload \<open>{status: "NEW"}\<close>: its status differs from \<open>new\<close> by case only, and the
  constructed game is not playable.
\<close>

theorem isPlayable_false_unless_new_witness:
  "property (Obj [(''status'', Prim (Str ''NEW''))]) F_status \<noteq> Prim (Str ''new'') \<and>
   new_Game scenario_host (Obj [(''status'', Prim (Str ''NEW''))]) [] =
     Inr (2, [DateObj NaN, DateObj NaN,
              GameObj (built (Obj [(''status'', Prim (Str ''NEW''))]) 0 1)]) \<and>
   fst (call_isPlayable 2 [DateObj NaN, DateObj NaN,
                           GameObj (built (Obj [(''status'', Prim (Str ''NEW''))]) 0 1)]) =
     Some False \<and>
   status (built (Obj [(''status'', Prim (Str ''NEW''))]) 0 1) \<noteq> Prim (Str ''new'') \<and>
   \<not> isPlayable (built (Obj [(''status'', Prim (Str ''NEW''))]) 0 1)"
proof -
  let ?p = "Obj [(''status'', Prim (Str ''NEW''))]"
  let ?s = "[DateObj NaN, DateObj NaN, GameObj (built ?p 0 1)]"
  have d: "property ?p F_status \<noteq> Prim (Str ''new'')" by simp
  have c: "new_Game scenario_host ?p [] = Inr (2, ?s)"
    by (simp add: eval_simps built_def)
  have g: "status (built ?p 0 1) \<noteq> Prim (Str ''new'')" by simp
  show ?thesis
    using d c g
      isPlayable_false_unless_new[of "built ?p 0 1" _ _ _ _ scenario_host ?p "[]" 2 ?s]
    by blast
qed

text \<open>
  Claim C10, as amended. Construction throws exactly when the payload is \<open>null\<close> or
  \<open>undefined\<close> or one of its two date fields is unconvertible (is, or holds inside an
  array, a plain object with an own \<open>toString\<close> property). For every object payload
  whose date fields are convertible it completes, every field the payload lacks is
  \<open>undefined\<close> in the \<open>Game\<close>, and a date the payload lacks is the invalid date; so it is
  for the empty object, all of whose eight fields are missing.
\<close>

theorem new_Game_total_on_convertible_dates:
  "(new_Game h info s = Inl TypeError \<longleftrightarrow>
      nullish info \<or> unconvertible (property info F_created_on) \<or>
      unconvertible (property info F_last_active)) \<and>
   (\<not> unconvertible (property (Obj ps) F_created_on) \<and>
    \<not> unconvertible (property (Obj ps) F_last_active) \<longrightarrow>
      (\<exists>r s' g. new_Game h (Obj ps) s = Inr (r, s') \<and> game_at s' r = Some g \<and>
         (map_of ps ''id'' = None \<longrightarrow> id' g = Prim Undefined) \<and>
         (map_of ps ''name'' = None \<longrightarrow> name g = Prim Undefined) \<and>
         (map_of ps ''status'' = None \<longrightarrow> status g = Prim Undefined) \<and>
         (map_of ps ''n_players'' = None \<longrightarrow> nPlayers g = Prim Undefined) \<and>
         (map_of ps ''created_on'' = None \<longrightarrow> getTime s' (createdOn g) = Some NaN) \<and>
         (map_of ps ''last_active'' = None \<longrightarrow> getTime s' (lastActive g) = Some NaN) \<and>
         (map_of ps ''rounds'' = None \<longrightarrow> rounds g = Prim Undefined) \<and>
         (map_of ps ''scoreboard'' = None \<longrightarrow> scoreboard g = Prim Undefined))) \<and>
   new_Game h (Obj []) s =
     Inr (Suc (Suc (length s)),
          s @ [DateObj NaN, DateObj NaN,
               GameObj \<lparr> id' = Prim Undefined, name = Prim Undefined, status = Prim Undefined,
                         nPlayers = Prim Undefined, createdOn = length s,
                         lastActive = Suc (length s),
                         rounds = Prim Undefined, scoreboard = Prim Undefined \<rparr>])"
proof -
  have fields: "\<exists>r s' g. new_Game h (Obj ps) s = Inr (r, s') \<and> game_at s' r = Some g \<and>
         (map_of ps ''id'' = None \<longrightarrow> id' g = Prim Undefined) \<and>
         (map_of ps ''name'' = None \<longrightarrow> name g = Prim Undefined) \<and>
         (map_of ps ''status'' = None \<longrightarrow> status g = Prim Undefined) \<and>
         (map_of ps ''n_players'' = None \<longrightarrow> nPlayers g = Prim Undefined) \<and>
         (map_of ps ''created_on'' = None \<longrightarrow> getTime s' (createdOn g) = Some NaN) \<and>
         (map_of ps ''last_active'' = None \<longrightarrow> getTime s' (lastActive g) = Some NaN) \<and>
         (map_of ps ''rounds'' = None \<longrightarrow> rounds g = Prim Undefined) \<and>
         (map_of ps ''scoreboard'' = None \<longrightarrow> scoreboard g = Prim Undefined)"
    if u: "\<not> unconvertible (property (Obj ps) F_created_on)"
      "\<not> unconvertible (property (Obj ps) F_last_active)"
  proof -
    have n: "\<not> nullish (Obj ps)" by (simp add: nullish_def)
    obtain c l where c: "date_value h (property (Obj ps) F_created_on) = Inr c"
      and l: "date_value h (property (Obj ps) F_last_active) = Inr l"
      and g: "new_Game h (Obj ps) s =
         Inr (Suc (Suc (length s)),
              s @ [DateObj c, DateObj l, GameObj (built (Obj ps) (length s) (Suc (length s)))])"
      using new_Game_convertible[OF n u] by blast
    have "map_of ps ''created_on'' = None \<longrightarrow> c = NaN"
      using c by (auto simp: date_value_primitives)
    moreover have "map_of ps ''last_active'' = None \<longrightarrow> l = NaN"
      using l by (auto simp: date_value_primitives)
    ultimately show ?thesis using g by simp
  qed
  have empty: "new_Game h (Obj []) s =
     Inr (Suc (Suc (length s)),
          s @ [DateObj NaN, DateObj NaN,
               GameObj \<lparr> id' = Prim Undefined, name = Prim Undefined, status = Prim Undefined,
                         nPlayers = Prim Undefined, createdOn = length s,
                         lastActive = Suc (length s),
                         rounds = Prim Undefined, scoreboard = Prim Undefined \<rparr>])"
    by (simp add: new_Game_def Get_def nullish_def new_Date_def date_value_def alloc_def)
  show ?thesis using new_Game_Inl[of h info s] fields empty by blast
qed

text \<open>The empty object, constructed in the empty store.\<close>

theorem new_Game_total_on_convertible_dates_witness:
  "\<not> unconvertible (property (Obj []) F_created_on) \<and>
   \<not> unconvertible (property (Obj []) F_last_active) \<and>
   new_Game scenario_host (Obj []) [] \<noteq> Inl TypeError \<and>
   new_Game scenario_host (Obj []) [] =
     Inr (2, [DateObj NaN, DateObj NaN,
              GameObj \<lparr> id' = Prim Undefined, name = Prim Undefined, status = Prim Undefined,
                        nPlayers = Prim Undefined, createdOn = 0, lastActive = 1,
                        rounds = Prim Undefined, scoreboard = Prim Undefined \<rparr>])"
  using new_Game_total_on_convertible_dates[of scenario_host "Obj []" "[]" "[]"]
  by (simp add: nullish_def)

text \<open>
  The claim as stated fails: this payload is an object, not \<open>null\<close>, and its
  construction throws, because \<open>created_on\<close> is an object with an own \<open>toString\<close>
  property, which \<open>new Date\<close> cannot convert to a primitive.
\<close>

theorem new_Game_not_total_counterexample:
  "\<not> nullish (Obj [(''name'', Prim (Str ''Trivia'')),
                   (''created_on'', Obj [(''toString'', Prim (Str ''2024-01-01T00:00:00Z''))])]) \<and>
   new_Game scenario_host
     (Obj [(''name'', Prim (Str ''Trivia'')),
           (''created_on'', Obj [(''toString'', Prim (Str ''2024-01-01T00:00:00Z''))])]) [] =
     Inl TypeError"
  by (simp add: eval_simps)

end
